theory Spec2Isabelle
  imports Complex_Main "HOL-Library.Sublist" "HOL-Library.Char_ord" "HOL-Library.List_Lexorder"
begin

section \<open>Catalog items and the errors of the selection steps\<close>

text \<open>
  The two notebooks (Sentinel-1 GRD and HREA) read catalog items: an identifier, a
  dictionary of properties and a dictionary of named assets. Dictionaries are
  association lists in insertion order, as Python keeps them; their keys are distinct.
  A property value is kept in its printed form. The title and the roles of an asset
  are optional in the catalog library: an absent one is Python's None.
\<close>

datatype error = IndexError | StopIteration | ValueError | KeyError | TypeError

record asset =
  href :: string
  title :: "string option"
  roles :: "string list option"

record item =
  item_id :: string
  properties :: "(string \<times> string) list"
  assets :: "(string \<times> asset) list"

datatype pyval =
    PyStr string
  | PyNum real
  | PyInt int
  | PyList "pyval list"
  | PyTuple "pyval list"
  | PyDict "(string \<times> pyval) list"

text \<open>\<^verbatim>\<open>"Djibouti" in x.id\<close>: Python's substring test on strings.\<close>

definition str_in :: "string \<Rightarrow> string \<Rightarrow> bool" where
  "str_in sub s = sublist sub s"

text \<open>\<^verbatim>\<open>d[key]\<close> on a dictionary raises KeyError for a missing key.\<close>

definition getitem_dict :: "(string \<times> 'v) list \<Rightarrow> string \<Rightarrow> error + 'v" where
  "getitem_dict d k = (case map_of d k of None \<Rightarrow> Inl KeyError | Some v \<Rightarrow> Inr v)"

text \<open>\<^verbatim>\<open>items[0]\<close> on an item collection raises IndexError when it is empty.\<close>

definition getitem0 :: "'a list \<Rightarrow> error + 'a" where
  "getitem0 xs = (case xs of [] \<Rightarrow> Inl IndexError | x # _ \<Rightarrow> Inr x)"

text \<open>
  \<^verbatim>\<open>next(gen)\<close>: the generator is the list of items it has still to yield; the call
  returns the first of them and leaves the rest, or raises StopIteration.
\<close>

definition next_gen :: "'a list \<Rightarrow> error + ('a \<times> 'a list)" where
  "next_gen gen = (case gen of [] \<Rightarrow> Inl StopIteration | x # rest \<Rightarrow> Inr (x, rest))"

text \<open>
  \<^verbatim>\<open>(item,) = xs\<close>: unpacking into a one-element target raises ValueError unless the
  list has exactly one element.
\<close>

fun unpack1 :: "'a list \<Rightarrow> error + 'a" where
  "unpack1 [x] = Inr x"
| "unpack1 xs = Inl ValueError"

subsection \<open>The cells that select items\<close>

text \<open>
  Sentinel-1 notebook, cell 4:
  \<^verbatim>\<open>item = items[0]
Image(url=item.assets["rendered_preview"].href)\<close>
  The cell binds \<open>item\<close> and displays the preview URL.
\<close>

definition s1_cell4 :: "item list \<Rightarrow> error + (item \<times> string)" where
  "s1_cell4 items =
     (case getitem0 items of
        Inl e \<Rightarrow> Inl e
      | Inr it \<Rightarrow>
         (case getitem_dict (assets it) ''rendered_preview'' of
            Inl e \<Rightarrow> Inl e
          | Inr a \<Rightarrow> Inr (it, href a)))"

text \<open>
  Sentinel-1 notebook, cell 13 (after the search):
  \<^verbatim>\<open>gen = search.items()
item = next(gen)
Image(url=item.assets["rendered_preview"].href)\<close>
  The argument is the sequence of items the search yields.
\<close>

definition s1_cell13 :: "item list \<Rightarrow> error + (item \<times> string)" where
  "s1_cell13 found =
     (case next_gen found of
        Inl e \<Rightarrow> Inl e
      | Inr (it, gen) \<Rightarrow>
         (case getitem_dict (assets it) ''rendered_preview'' of
            Inl e \<Rightarrow> Inl e
          | Inr a \<Rightarrow> Inr (it, href a)))"

text \<open>
  HREA notebook, cell 4:
  \<^verbatim>\<open>(item,) = [x for x in items if "Djibouti" in x.id]
data_assets = [
    f"{key}: {asset.title}"
    for key, asset in item.assets.items()
    if "data" in asset.roles
]\<close>
\<close>

definition djibouti_items :: "item list \<Rightarrow> item list" where
  "djibouti_items items = filter (\<lambda>x. str_in ''Djibouti'' (item_id x)) items"

text \<open>
  The comprehension visits the assets in order. \<^verbatim>\<open>"data" in asset.roles\<close> raises TypeError
  when the roles are None; an f-string prints a None title as the word None.
\<close>

definition format_title :: "string option \<Rightarrow> string" where
  "format_title t = (case t of None \<Rightarrow> ''None'' | Some text \<Rightarrow> text)"

fun data_assets_of :: "(string \<times> asset) list \<Rightarrow> error + string list" where
  "data_assets_of [] = Inr []"
| "data_assets_of ((key, a) # rest) =
     (case roles a of
        None \<Rightarrow> Inl TypeError
      | Some rs \<Rightarrow>
         (case data_assets_of rest of
            Inl e \<Rightarrow> Inl e
          | Inr out \<Rightarrow>
             Inr (if ''data'' \<in> set rs then (key @ '': '' @ format_title (title a)) # out
                  else out)))"

definition data_assets :: "item \<Rightarrow> error + string list" where
  "data_assets it = data_assets_of (assets it)"

definition hrea_cell4 :: "item list \<Rightarrow> error + (item \<times> string list)" where
  "hrea_cell4 items =
     (case unpack1 (djibouti_items items) of
        Inl e \<Rightarrow> Inl e
      | Inr it \<Rightarrow>
         (case data_assets it of
            Inl e \<Rightarrow> Inl e
          | Inr names \<Rightarrow> Inr (it, names)))"

text \<open>
  HREA notebook, cell 8 (after the search):
  \<^verbatim>\<open>items = [item.to_dict() for item in search.get_items() if "Djibouti" in item.id]\<close>
  \<open>to_dict\<close> is the catalog library's conversion of an item to a dictionary, taken as
  a parameter. The second argument is the sequence of items the search yields.
\<close>

definition hrea_cell8 :: "(item \<Rightarrow> 'd) \<Rightarrow> item list \<Rightarrow> 'd list" where
  "hrea_cell8 to_dict found =
     map to_dict (filter (\<lambda>it. str_in ''Djibouti'' (item_id it)) found)"

section \<open>Pixel values and arrays\<close>

text \<open>
  The rasters are converted with \<^verbatim>\<open>astype(float)\<close>. A pixel value is a finite number,
  the negative zero, an infinity or NaN. Finite values are real numbers: the rounding,
  overflow and underflow of the 64-bit format are not modelled. The operations follow
  numpy, which returns NaN or an infinity where Python's own floats would raise.
\<close>

datatype fl = Fin real | NZero | PInf | NInf | NaN

datatype fl_class = CNaN | CInf | CZero | CFinite

fun class_of :: "fl \<Rightarrow> fl_class" where
  "class_of (Fin r) = (if r = 0 then CZero else CFinite)"
| "class_of NZero = CZero"
| "class_of PInf = CInf"
| "class_of NInf = CInf"
| "class_of NaN = CNaN"

fun sign_bit :: "fl \<Rightarrow> bool" where
  "sign_bit (Fin r) = (r < 0)"
| "sign_bit NZero = True"
| "sign_bit PInf = False"
| "sign_bit NInf = True"
| "sign_bit NaN = False"

fun magnitude :: "fl \<Rightarrow> real" where
  "magnitude (Fin r) = r"
| "magnitude _ = 0"

definition zero_signed :: "bool \<Rightarrow> fl" where
  "zero_signed neg = (if neg then NZero else Fin 0)"

definition inf_signed :: "bool \<Rightarrow> fl" where
  "inf_signed neg = (if neg then NInf else PInf)"

text \<open>\<^verbatim>\<open>x / y\<close> on float arrays, element by element.\<close>

definition fl_div :: "fl \<Rightarrow> fl \<Rightarrow> fl" where
  "fl_div x y =
     (let neg = (sign_bit x \<noteq> sign_bit y); cx = class_of x; cy = class_of y in
      if cx = CNaN \<or> cy = CNaN then NaN
      else if cx = CInf then (if cy = CInf then NaN else inf_signed neg)
      else if cy = CInf then zero_signed neg
      else if cy = CZero then (if cx = CZero then NaN else inf_signed neg)
      else if cx = CZero then zero_signed neg
      else Fin (magnitude x / magnitude y))"

text \<open>\<^verbatim>\<open>x * y\<close> on float arrays, element by element.\<close>

definition fl_mul :: "fl \<Rightarrow> fl \<Rightarrow> fl" where
  "fl_mul x y =
     (let neg = (sign_bit x \<noteq> sign_bit y); cx = class_of x; cy = class_of y in
      if cx = CNaN \<or> cy = CNaN then NaN
      else if cx = CInf then (if cy = CZero then NaN else inf_signed neg)
      else if cy = CInf then (if cx = CZero then NaN else inf_signed neg)
      else if cx = CZero \<or> cy = CZero then zero_signed neg
      else Fin (magnitude x * magnitude y))"

text \<open>\<^verbatim>\<open>x > y\<close> and \<^verbatim>\<open>x < y\<close>: false whenever an operand is NaN; the two zeros are equal.\<close>

fun fl_less :: "fl \<Rightarrow> fl \<Rightarrow> bool" where
  "fl_less NaN _ = False"
| "fl_less _ NaN = False"
| "fl_less PInf _ = False"
| "fl_less _ NInf = False"
| "fl_less NInf _ = True"
| "fl_less _ PInf = True"
| "fl_less x y = (magnitude x < magnitude y)"

definition fl_gt :: "fl \<Rightarrow> fl \<Rightarrow> bool" where
  "fl_gt x y = fl_less y x"

text \<open>
  \<^verbatim>\<open>clip(lo, hi)\<close>: numpy's clip is the minimum with \<open>hi\<close> of the maximum with \<open>lo\<close>,
  where a NaN element stays NaN.
\<close>

definition fl_clip :: "fl \<Rightarrow> fl \<Rightarrow> fl \<Rightarrow> fl" where
  "fl_clip lo hi x =
     (if x = NaN then NaN
      else let m = (if fl_gt x lo then x else lo) in if fl_less m hi then m else hi)"

text \<open>\<^verbatim>\<open>where(lambda x: x > 0)\<close>: an element failing the condition becomes NaN.\<close>

definition where_gt0 :: "fl \<Rightarrow> fl" where
  "where_gt0 x = (if fl_gt x (Fin 0) then x else NaN)"

text \<open>
  \<^verbatim>\<open>np.sqrt\<close> and \<^verbatim>\<open>np.log10\<close> return a value for every argument; outside the domain
  they return NaN or an infinity and emit a RuntimeWarning, which is the second
  component here.
\<close>

datatype np_warning = InvalidValue | DivideByZero

fun np_sqrt :: "fl \<Rightarrow> fl \<times> np_warning option" where
  "np_sqrt (Fin r) = (if r < 0 then (NaN, Some InvalidValue) else (Fin (sqrt r), None))"
| "np_sqrt NZero = (NZero, None)"
| "np_sqrt PInf = (PInf, None)"
| "np_sqrt NInf = (NaN, Some InvalidValue)"
| "np_sqrt NaN = (NaN, None)"

fun np_log10 :: "fl \<Rightarrow> fl \<times> np_warning option" where
  "np_log10 (Fin r) =
     (if r < 0 then (NaN, Some InvalidValue)
      else if r = 0 then (NInf, Some DivideByZero)
      else (Fin (log 10 r), None))"
| "np_log10 NZero = (NInf, Some DivideByZero)"
| "np_log10 PInf = (PInf, None)"
| "np_log10 NInf = (NaN, Some InvalidValue)"
| "np_log10 NaN = (NaN, None)"

text \<open>
  A squeezed raster is a two-dimensional array, a list of rows; the composite has a
  leading band axis. Arithmetic between two rasters pairs the elements by position:
  the two polarisation assets of one item share a grid, which is the case the
  theorems assume (equal shapes).
\<close>

type_synonym array2 = "fl list list"
type_synonym array3 = "fl list list list"

definition map2d :: "(fl \<Rightarrow> fl) \<Rightarrow> array2 \<Rightarrow> array2" where
  "map2d f a = map (map f) a"

definition map3d :: "(fl \<Rightarrow> fl) \<Rightarrow> array3 \<Rightarrow> array3" where
  "map3d f a = map (map2d f) a"

definition div_scalar :: "array2 \<Rightarrow> fl \<Rightarrow> array2" where
  "div_scalar a c = map2d (\<lambda>x. fl_div x c) a"

definition div_arrays :: "array2 \<Rightarrow> array2 \<Rightarrow> array2" where
  "div_arrays a b = map2 (map2 fl_div) a b"

text \<open>\<^verbatim>\<open>xr.concat([r, g, b], dim="band")\<close>: the new axis comes first.\<close>

definition concat_band :: "array2 list \<Rightarrow> array3" where
  "concat_band bands = bands"

definition clip01 :: "array3 \<Rightarrow> array3" where
  "clip01 a = map3d (fl_clip (Fin 0) (Fin 1)) a"

definition shape2 :: "array2 \<Rightarrow> nat \<Rightarrow> nat \<Rightarrow> bool" where
  "shape2 a h w = (length a = h \<and> list_all (\<lambda>row. length row = w) a)"

definition shape3 :: "array3 \<Rightarrow> nat \<Rightarrow> nat \<Rightarrow> bool" where
  "shape3 a h w = list_all (\<lambda>band. shape2 band h w) a"

subsection \<open>Sentinel-1 notebook, cell 10: the false-colour composite\<close>

text \<open>
  \<^verbatim>\<open>r = vv / 600
g = vh / 270
b = (vv / vh) / 9
data = xr.concat([r, g, b], dim="band").clip(0, 1).where(lambda x: x > 0)\<close>
\<close>

definition composite :: "array2 \<Rightarrow> array2 \<Rightarrow> array3" where
  "composite vv vh =
     (let r = div_scalar vv (Fin 600);
          g = div_scalar vh (Fin 270);
          b = div_scalar (div_arrays vv vh) (Fin 9)
      in map3d where_gt0 (clip01 (concat_band [r, g, b])))"

subsection \<open>Sentinel-1 notebook, cell 12: the flipped image\<close>

text \<open>\<^verbatim>\<open>np.flip(data, axis=(1, 2)).clip(0, 1)\<close>\<close>

definition flip12 :: "array3 \<Rightarrow> array3" where
  "flip12 a = map (\<lambda>band. rev (map rev band)) a"

definition flipped :: "array3 \<Rightarrow> array3" where
  "flipped data = clip01 (flip12 data)"

subsection \<open>Sentinel-1 notebook, cell 8: the histogram frame\<close>

text \<open>
  \<^verbatim>\<open>raw = vv.where(lambda x: x > 0).data.ravel()
df = (
    pd.DataFrame({"power": raw, "amplitude": np.sqrt(raw), "dB": 10 * np.log10(raw)})
    .dropna()
    .melt(value_vars=["power", "amplitude", "dB"], var_name="kind")
)\<close>
  A row of the frame before \<open>melt\<close> is the triple of its three columns; \<open>dropna\<close>
  removes the rows holding a NaN; \<open>melt\<close> stacks the three columns under their
  names.
\<close>

definition raw_of :: "array2 \<Rightarrow> fl list" where
  "raw_of vv = concat (map2d where_gt0 vv)"

definition frame_rows :: "fl list \<Rightarrow> (fl \<times> fl \<times> fl) list" where
  "frame_rows raw =
     map (\<lambda>x. (x, fst (np_sqrt x), fl_mul (Fin 10) (fst (np_log10 x)))) raw"

definition warnings_of :: "fl list \<Rightarrow> np_warning list" where
  "warnings_of raw =
     List.map_filter (\<lambda>x. snd (np_sqrt x)) raw @ List.map_filter (\<lambda>x. snd (np_log10 x)) raw"

definition dropna :: "(fl \<times> fl \<times> fl) list \<Rightarrow> (fl \<times> fl \<times> fl) list" where
  "dropna rows = filter (\<lambda>(p, a, d). p \<noteq> NaN \<and> a \<noteq> NaN \<and> d \<noteq> NaN) rows"

definition melt :: "(fl \<times> fl \<times> fl) list \<Rightarrow> (string \<times> fl) list" where
  "melt rows =
     map (\<lambda>(p, a, d). (''power'', p)) rows
     @ map (\<lambda>(p, a, d). (''amplitude'', a)) rows
     @ map (\<lambda>(p, a, d). (''dB'', d)) rows"

definition s1_cell8 :: "array2 \<Rightarrow> (string \<times> fl) list" where
  "s1_cell8 vv = melt (dropna (frame_rows (raw_of vv)))"

section \<open>HREA notebook, cell 6: reading one window\<close>

text \<open>
  \<^verbatim>\<open># Reading only the second window of the file, as an example
i_window = 2
with rasterio.open(light_comp_asset.href) as src:
    windows = list(src.block_windows())
    print("Available windows:", *windows, sep="\n")
    _, window = windows[i_window]
    section = data_array.rio.isel_window(window)\<close>
  An entry of \<open>windows\<close> is a grid position (block row, block column) with its
  window.
\<close>

record window =
  col_off :: nat
  row_off :: nat
  width :: nat
  height :: nat

type_synonym block_window = "(nat \<times> nat) \<times> window"

definition i_window :: int where
  "i_window = 2"

text \<open>\<^verbatim>\<open>xs[i]\<close> on a list: a negative index counts from the end.\<close>

definition getitem_list :: "'a list \<Rightarrow> int \<Rightarrow> error + 'a" where
  "getitem_list xs i =
     (if 0 \<le> i
      then (if nat i < length xs then Inr (xs ! nat i) else Inl IndexError)
      else (if nat (- i) \<le> length xs then Inr (xs ! (length xs - nat (- i)))
            else Inl IndexError))"

definition select_window :: "block_window list \<Rightarrow> error + window" where
  "select_window windows =
     (case getitem_list windows i_window of
        Inl e \<Rightarrow> Inl e
      | Inr (_, w) \<Rightarrow> Inr w)"

text \<open>\<open>isel_window\<close> slices the rows and columns of every band by the window.\<close>

definition isel_window :: "'a list list list \<Rightarrow> window \<Rightarrow> 'a list list list" where
  "isel_window a w =
     map (\<lambda>band. map (\<lambda>row. take (width w) (drop (col_off w) row))
                    (take (height w) (drop (row_off w) band))) a"

definition hrea_cell6 :: "'a list list list \<Rightarrow> block_window list \<Rightarrow> error + 'a list list list" where
  "hrea_cell6 data_array windows =
     (case select_window windows of
        Inl e \<Rightarrow> Inl e
      | Inr w \<Rightarrow> Inr (isel_window data_array w))"

text \<open>The windows the notebook's recorded output lists for the asset.\<close>

definition recorded_windows :: "block_window list" where
  "recorded_windows =
     [((0, 0), \<lparr>col_off = 0, row_off = 0, width = 256, height = 256\<rparr>),
      ((0, 1), \<lparr>col_off = 256, row_off = 0, width = 142, height = 256\<rparr>),
      ((1, 0), \<lparr>col_off = 0, row_off = 256, width = 256, height = 165\<rparr>),
      ((1, 1), \<lparr>col_off = 256, row_off = 256, width = 142, height = 165\<rparr>)]"

section \<open>The catalog searches\<close>

text \<open>
  A search is the list of keyword arguments of its \<^verbatim>\<open>catalog.search(...)\<close> call, in
  the order written.
\<close>

type_synonym search_call = "(string \<times> pyval) list"

text \<open>
  Sentinel-1 notebook, cell 3:
  \<^verbatim>\<open>bbox_of_interest = [-122.2751, 47.5469, -121.9613, 47.7458]
time_of_interest = "2021-01-01/2021-12-31"
search = catalog.search(
    collections=["sentinel-1-grd"],
    bbox=bbox_of_interest,
    datetime=time_of_interest,
)\<close>
\<close>

definition s1_search_area :: search_call where
  "s1_search_area =
     [(''collections'', PyList [PyStr ''sentinel-1-grd'']),
      (''bbox'', PyList [PyNum (- 122.2751), PyNum 47.5469, PyNum (- 121.9613), PyNum 47.7458]),
      (''datetime'', PyStr ''2021-01-01/2021-12-31'')]"

text \<open>
  Sentinel-1 notebook, cell 13:
  \<^verbatim>\<open>search = catalog.search(
    collections=["sentinel-1-grd"],
    query={
        "sar:instrument_mode": {"eq": "SM"},
        "sar:polarizations": {"eq": ["VV", "VH"]},
    },
    limit=5,
)\<close>
\<close>

definition s1_search_mode :: search_call where
  "s1_search_mode =
     [(''collections'', PyList [PyStr ''sentinel-1-grd'']),
      (''query'', PyDict [(''sar:instrument_mode'', PyDict [(''eq'', PyStr ''SM'')]),
                        (''sar:polarizations'', PyDict [(''eq'', PyList [PyStr ''VV'', PyStr ''VH''])])]),
      (''limit'', PyInt 5)]"

text \<open>
  HREA notebook, cells 3 and 8:
  \<^verbatim>\<open>area_of_interest = {"type": "Point", "coordinates": (42.4841, 11.7101)}
search = catalog.search(
    collections=["hrea"], intersects=area_of_interest, datetime="2019-12-31"
)\<close>
  \<^verbatim>\<open>search = catalog.search(
    collections=["hrea"], intersects=area_of_interest, datetime="2012-12-31/2019-12-31"
)\<close>
\<close>

definition area_of_interest :: pyval where
  "area_of_interest =
     PyDict [(''type'', PyStr ''Point''), (''coordinates'', PyTuple [PyNum 42.4841, PyNum 11.7101])]"

definition hrea_search_year :: search_call where
  "hrea_search_year =
     [(''collections'', PyList [PyStr ''hrea'']),
      (''intersects'', area_of_interest),
      (''datetime'', PyStr ''2019-12-31'')]"

definition hrea_search_span :: search_call where
  "hrea_search_span =
     [(''collections'', PyList [PyStr ''hrea'']),
      (''intersects'', area_of_interest),
      (''datetime'', PyStr ''2012-12-31/2019-12-31'')]"




section \<open>The notebooks from the selection on\<close>

text \<open>
  What the remote services and the libraries give is a parameter of a run: the answer
  of the catalog to each search call, the raster behind an asset URL, the block
  windows of a file, the coordinate slice of an array, and the stacking of item
  dictionaries. A library call that raises returns its exception. The cells run in
  the order listed and the first exception ends the run: the notebooks contain no
  \<^verbatim>\<open>try\<close> statement.

  After a selecting cell the notebook holds the whole result in \<open>items\<close> and the
  selected item in \<open>item\<close>.
\<close>

record vars =
  var_items :: "item list"
  var_item :: item

subsection \<open>Sentinel-1 notebook, cells 5 to 12\<close>

text \<open>
  Cell 5:
  \<^verbatim>\<open>table = rich.table.Table("key", "value")
for k, v in sorted(item.properties.items()):
    table.add_row(k, str(v))\<close>
  The rows are ordered by key, the keys of a dictionary being distinct.
\<close>

definition s1_cell5 :: "vars \<Rightarrow> (string \<times> string) list" where
  "s1_cell5 st = sort_key fst (properties (var_item st))"

text \<open>Cell 6: \<^verbatim>\<open>item.properties["sar:polarizations"]\<close>\<close>

definition s1_cell6 :: "vars \<Rightarrow> error + string" where
  "s1_cell6 st = getitem_dict (properties (var_item st)) ''sar:polarizations''"

text \<open>
  Cell 7:
  \<^verbatim>\<open>vv = (
    rioxarray.open_rasterio(item.assets["vv"].href, overview_level=2)
    .astype(float)
    .squeeze()
)
vh = (
    rioxarray.open_rasterio(item.assets["vh"].href, overview_level=2)
    .astype(float)
    .squeeze()
)\<close>
  \<open>open_overview url level\<close> is the raster behind the URL at that overview level, as
  the squeezed float array.
\<close>

definition s1_cell7 :: "(string \<Rightarrow> nat \<Rightarrow> error + array2) \<Rightarrow> vars \<Rightarrow> error + (array2 \<times> array2)" where
  "s1_cell7 open_overview st =
     (case getitem_dict (assets (var_item st)) ''vv'' of
        Inl e \<Rightarrow> Inl e
      | Inr a \<Rightarrow>
         (case open_overview (href a) 2 of
            Inl e \<Rightarrow> Inl e
          | Inr vv \<Rightarrow>
             (case getitem_dict (assets (var_item st)) ''vh'' of
                Inl e \<Rightarrow> Inl e
              | Inr b \<Rightarrow>
                 (case open_overview (href b) 2 of
                    Inl e \<Rightarrow> Inl e
                  | Inr vh \<Rightarrow> Inr (vv, vh)))))"

text \<open>Cell 11: \<^verbatim>\<open>item.properties["sat:orbit_state"]\<close>\<close>

definition s1_cell11 :: "vars \<Rightarrow> error + string" where
  "s1_cell11 st = getitem_dict (properties (var_item st)) ''sat:orbit_state''"

text \<open>
  What cells 5 to 12 display and plot: the table, the polarizations, the frame of the
  histograms (cells 8 and 9), the composite (cell 10), the orbit state and the
  flipped image (cell 12).
\<close>

record s1_outputs =
  out_table :: "(string \<times> string) list"
  out_polarizations :: string
  out_histogram :: "(string \<times> fl) list"
  out_image :: array3
  out_orbit_state :: string
  out_flipped :: array3

definition s1_later :: "(string \<Rightarrow> nat \<Rightarrow> error + array2) \<Rightarrow> vars \<Rightarrow> error + s1_outputs" where
  "s1_later open_overview st =
     (case s1_cell6 st of
        Inl e \<Rightarrow> Inl e
      | Inr pol \<Rightarrow>
         (case s1_cell7 open_overview st of
            Inl e \<Rightarrow> Inl e
          | Inr (vv, vh) \<Rightarrow>
             (case s1_cell11 st of
                Inl e \<Rightarrow> Inl e
              | Inr orbit \<Rightarrow>
                 Inr \<lparr>out_table = s1_cell5 st, out_polarizations = pol,
                      out_histogram = s1_cell8 vv, out_image = composite vv vh,
                      out_orbit_state = orbit, out_flipped = flipped (composite vv vh)\<rparr>)))"

text \<open>Cells 4 to 12, from the items of the first search.\<close>

definition s1_from_cell4 ::
  "(string \<Rightarrow> nat \<Rightarrow> error + array2) \<Rightarrow> item list \<Rightarrow> error + (string \<times> s1_outputs)" where
  "s1_from_cell4 open_overview items =
     (case s1_cell4 items of
        Inl e \<Rightarrow> Inl e
      | Inr (it, url) \<Rightarrow>
         (case s1_later open_overview \<lparr>var_items = items, var_item = it\<rparr> of
            Inl e \<Rightarrow> Inl e
          | Inr out \<Rightarrow> Inr (url, out)))"

text \<open>
  The whole notebook: cell 3 prints the number of items of the first search, cell 13
  issues the second search and shows the preview of its first item.
\<close>

definition s1_run ::
  "(search_call \<Rightarrow> item list) \<Rightarrow> (string \<Rightarrow> nat \<Rightarrow> error + array2)
   \<Rightarrow> error + (nat \<times> string \<times> s1_outputs \<times> string)" where
  "s1_run catalog open_overview =
     (let items = catalog s1_search_area in
      case s1_from_cell4 open_overview items of
        Inl e \<Rightarrow> Inl e
      | Inr (url, out) \<Rightarrow>
         (case s1_cell13 (catalog s1_search_mode) of
            Inl e \<Rightarrow> Inl e
          | Inr (it, url') \<Rightarrow> Inr (length items, url, out, url')))"

subsection \<open>HREA notebook, cells 5 to 10\<close>

text \<open>
  Cell 5:
  \<^verbatim>\<open>light_comp_asset = item.assets["light-composite"]
data_array = rioxarray.open_rasterio(light_comp_asset.href)\<close>
\<close>

definition hrea_cell5 :: "(string \<Rightarrow> error + array3) \<Rightarrow> vars \<Rightarrow> error + (asset \<times> array3)" where
  "hrea_cell5 open_rasterio st =
     (case getitem_dict (assets (var_item st)) ''light-composite'' of
        Inl e \<Rightarrow> Inl e
      | Inr a \<Rightarrow>
         (case open_rasterio (href a) of
            Inl e \<Rightarrow> Inl e
          | Inr data_array \<Rightarrow> Inr (a, data_array)))"

text \<open>
  What cells 4 to 7 print and plot: the data assets, the array, the windows, the
  section of the selected window, and its coordinate slice
  \<^verbatim>\<open>section.sel(x=slice(...), y=slice(...))\<close> of cell 7.
\<close>

record hrea_outputs =
  out_data_assets :: "string list"
  out_array :: array3
  out_windows :: "block_window list"
  out_section :: array3
  out_region :: array3

definition hrea_later ::
  "(string \<Rightarrow> error + array3) \<Rightarrow> (string \<Rightarrow> error + block_window list)
   \<Rightarrow> (array3 \<Rightarrow> array3) \<Rightarrow> vars \<Rightarrow> string list \<Rightarrow> error + hrea_outputs" where
  "hrea_later open_rasterio block_windows sel_region st names =
     (case hrea_cell5 open_rasterio st of
        Inl e \<Rightarrow> Inl e
      | Inr (a, data_array) \<Rightarrow>
         (case block_windows (href a) of
            Inl e \<Rightarrow> Inl e
          | Inr windows \<Rightarrow>
             (case hrea_cell6 data_array windows of
                Inl e \<Rightarrow> Inl e
              | Inr section \<Rightarrow>
                 Inr \<lparr>out_data_assets = names, out_array = data_array,
                      out_windows = windows, out_section = section,
                      out_region = sel_region section\<rparr>)))"

text \<open>Cells 4 to 7, from the items of the first search.\<close>

definition hrea_from_cell4 ::
  "(string \<Rightarrow> error + array3) \<Rightarrow> (string \<Rightarrow> error + block_window list)
   \<Rightarrow> (array3 \<Rightarrow> array3) \<Rightarrow> item list \<Rightarrow> error + hrea_outputs" where
  "hrea_from_cell4 open_rasterio block_windows sel_region items =
     (case hrea_cell4 items of
        Inl e \<Rightarrow> Inl e
      | Inr (it, names) \<Rightarrow>
          hrea_later open_rasterio block_windows sel_region
            \<lparr>var_items = items, var_item = it\<rparr> names)"

text \<open>
  Cells 8 to 10, from the items the second search yields:
  \<^verbatim>\<open>dikhil = (
    stackstac.stack(items, assets=["light-composite"], bounds_latlon=bounds_latlon)
    .squeeze()
    .compute()
    .quantile(0.9, dim=["y", "x"])
)\<close>
  \<open>stack\<close> is that chain of library calls on the list of dictionaries. The cell also
  prints the length of the list.
\<close>

definition hrea_from_cell8 ::
  "(item \<Rightarrow> 'd) \<Rightarrow> ('d list \<Rightarrow> error + 'r) \<Rightarrow> item list \<Rightarrow> error + (nat \<times> 'r)" where
  "hrea_from_cell8 to_dict stack found =
     (let items = hrea_cell8 to_dict found in
      case stack items of
        Inl e \<Rightarrow> Inl e
      | Inr dikhil \<Rightarrow> Inr (length items, dikhil))"

text \<open>The whole notebook: cell 3 prints the number of items of the first search.\<close>

definition hrea_run ::
  "(search_call \<Rightarrow> item list) \<Rightarrow> (string \<Rightarrow> error + array3)
   \<Rightarrow> (string \<Rightarrow> error + block_window list) \<Rightarrow> (array3 \<Rightarrow> array3)
   \<Rightarrow> (item \<Rightarrow> 'd) \<Rightarrow> ('d list \<Rightarrow> error + 'r)
   \<Rightarrow> error + (nat \<times> hrea_outputs \<times> nat \<times> 'r)" where
  "hrea_run catalog open_rasterio block_windows sel_region to_dict stack =
     (let items = catalog hrea_search_year in
      case hrea_from_cell4 open_rasterio block_windows sel_region items of
        Inl e \<Rightarrow> Inl e
      | Inr out \<Rightarrow>
         (case hrea_from_cell8 to_dict stack (catalog hrea_search_span) of
            Inl e \<Rightarrow> Inl e
          | Inr (n, dikhil) \<Rightarrow> Inr (length items, out, n, dikhil)))"

section \<open>Item selection\<close>

lemma unpack1_Inr_iff: "unpack1 xs = Inr x \<longleftrightarrow> xs = [x]"
  by (cases xs rule: unpack1.cases) auto


lemma str_in_iff: "str_in sub s \<longleftrightarrow> (\<exists>p t. s = p @ sub @ t)"
  by (simp add: str_in_def sublist_def)

lemma djibouti_items_idem: "djibouti_items (djibouti_items items) = djibouti_items items"
  by (simp add: djibouti_items_def)

lemma s1_cell4_Cons:
  "s1_cell4 (x # xs) =
     (case getitem_dict (assets x) ''rendered_preview'' of
        Inl e \<Rightarrow> Inl e | Inr a \<Rightarrow> Inr (x, href a))"
  by (simp add: s1_cell4_def getitem0_def)

lemma s1_cell13_Cons:
  "s1_cell13 (x # xs) =
     (case getitem_dict (assets x) ''rendered_preview'' of
        Inl e \<Rightarrow> Inl e | Inr a \<Rightarrow> Inr (x, href a))"
  by (simp add: s1_cell13_def next_gen_def)

lemma getitem_dict_Inl: "getitem_dict d k = Inl e \<Longrightarrow> e = KeyError"
  by (auto simp: getitem_dict_def split: option.splits)

lemma getitem_dict_Inr: "getitem_dict d k = Inr v \<longleftrightarrow> map_of d k = Some v"
  by (auto simp: getitem_dict_def split: option.splits)

lemma s1_cell4_IndexError: "s1_cell4 items = Inl IndexError \<longleftrightarrow> items = []"
proof (cases items)
  case Nil
  then show ?thesis by (simp add: s1_cell4_def getitem0_def)
next
  case (Cons x xs)
  then show ?thesis
    by (auto simp: s1_cell4_Cons split: sum.splits dest: getitem_dict_Inl)
qed

lemma s1_cell13_StopIteration: "s1_cell13 found = Inl StopIteration \<longleftrightarrow> found = []"
proof (cases found)
  case Nil
  then show ?thesis by (simp add: s1_cell13_def next_gen_def)
next
  case (Cons x xs)
  then show ?thesis
    by (auto simp: s1_cell13_Cons split: sum.splits dest: getitem_dict_Inl)
qed

lemma s1_cell4_Inr_iff:
  "s1_cell4 items = Inr (it, url) \<longleftrightarrow>
     (\<exists>xs a. items = it # xs \<and> map_of (assets it) ''rendered_preview'' = Some a \<and> url = href a)"
proof (cases items)
  case Nil
  then show ?thesis by (simp add: s1_cell4_def getitem0_def)
next
  case (Cons x xs)
  then show ?thesis
    by (auto simp: s1_cell4_Cons getitem_dict_def split: option.splits)
qed

lemma s1_cell13_Inr_iff:
  "s1_cell13 found = Inr (it, url) \<longleftrightarrow>
     (\<exists>xs a. found = it # xs \<and> map_of (assets it) ''rendered_preview'' = Some a \<and> url = href a)"
proof (cases found)
  case Nil
  then show ?thesis by (simp add: s1_cell13_def next_gen_def)
next
  case (Cons x xs)
  then show ?thesis
    by (auto simp: s1_cell13_Cons getitem_dict_def split: option.splits)
qed


lemma s1_later_items: "s1_later open_overview (st\<lparr>var_items := ys\<rparr>) = s1_later open_overview st"
proof -
  have c5: "s1_cell5 (st\<lparr>var_items := ys\<rparr>) = s1_cell5 st"
    by (simp add: s1_cell5_def)
  have c6: "s1_cell6 (st\<lparr>var_items := ys\<rparr>) = s1_cell6 st"
    by (simp add: s1_cell6_def)
  have c7: "s1_cell7 open_overview (st\<lparr>var_items := ys\<rparr>) = s1_cell7 open_overview st"
    by (simp add: s1_cell7_def cong: sum.case_cong)
  have c11: "s1_cell11 (st\<lparr>var_items := ys\<rparr>) = s1_cell11 st"
    by (simp add: s1_cell11_def)
  show ?thesis
    unfolding s1_later_def c5 c6 c7 c11 by (rule refl)
qed

lemma hrea_later_items:
  "hrea_later open_rasterio block_windows sel_region (st\<lparr>var_items := ys\<rparr>) names
   = hrea_later open_rasterio block_windows sel_region st names"
proof -
  have c5: "hrea_cell5 open_rasterio (st\<lparr>var_items := ys\<rparr>) = hrea_cell5 open_rasterio st"
    by (simp add: hrea_cell5_def)
  show ?thesis
    unfolding hrea_later_def c5 by (rule refl)
qed

lemma s1_from_cell4_Nil: "s1_from_cell4 open_overview [] = Inl IndexError"
  by (simp add: s1_from_cell4_def s1_cell4_def getitem0_def)

lemma s1_from_cell4_Cons: "s1_from_cell4 open_overview (x # xs) = s1_from_cell4 open_overview [x]"
proof -
  have "s1_later open_overview \<lparr>var_items = x # xs, var_item = it\<rparr>
      = s1_later open_overview \<lparr>var_items = [x], var_item = it\<rparr>" for it
    using s1_later_items [where st = "\<lparr>var_items = x # xs, var_item = it\<rparr>" and ys = "[x]"]
    by simp
  then show ?thesis
    by (simp add: s1_from_cell4_def s1_cell4_Cons split: sum.splits)
qed

lemma hrea_from_cell4_filtered:
  "hrea_from_cell4 open_rasterio block_windows sel_region items
   = hrea_from_cell4 open_rasterio block_windows sel_region (djibouti_items items)"
proof -
  have c: "hrea_cell4 (djibouti_items items) = hrea_cell4 items"
    by (simp add: hrea_cell4_def djibouti_items_idem)
  have "hrea_later open_rasterio block_windows sel_region \<lparr>var_items = items, var_item = it\<rparr> names
      = hrea_later open_rasterio block_windows sel_region
          \<lparr>var_items = djibouti_items items, var_item = it\<rparr> names" for it names
    using hrea_later_items [where st = "\<lparr>var_items = items, var_item = it\<rparr>"
        and ys = "djibouti_items items"]
    by simp
  then show ?thesis
    by (simp add: hrea_from_cell4_def c split: sum.splits)
qed

lemma hrea_cell8_filter: "hrea_cell8 to_dict found = map to_dict (djibouti_items found)"
  by (simp add: hrea_cell8_def djibouti_items_def)





lemma hrea_cell4_Inr_iff:
  "hrea_cell4 items = Inr (it, names) \<longleftrightarrow> djibouti_items items = [it] \<and> data_assets it = Inr names"
  by (auto simp: hrea_cell4_def unpack1_Inr_iff split: sum.splits)

text \<open>
  C1, as claimed, fails for the fourth search: the selection that follows it (HREA
  cell 8) is a filter, which on an empty result binds the empty list and raises
  nothing; the run goes on into the stacking call.
\<close>

theorem C1_counterexample:
  "hrea_cell8 item_id [] = [] \<and> hrea_from_cell8 item_id Inr [] = Inr (0, [])"
  by (simp add: hrea_cell8_def hrea_from_cell8_def)

text \<open>
  C1, amended. After the first three searches an empty result makes the selection
  raise, and the exception is the outcome of the cell and, once the run has reached
  the cell, of the whole run, whatever the libraries return: \<open>items[0]\<close> raises IndexError exactly on an empty collection,
  \<open>next(gen)\<close> raises StopIteration exactly on an exhausted generator, and the
  one-target unpacking raises ValueError when no id contains Djibouti. After the
  fourth search the filter of HREA cell 8 raises nothing: it gives the empty list to
  the stacking call.
\<close>

theorem C1_empty_result_propagates:
  "(s1_cell4 items = Inl IndexError \<longleftrightarrow> items = [])
   \<and> (s1_cell13 found = Inl StopIteration \<longleftrightarrow> found = [])
   \<and> (djibouti_items items = [] \<longrightarrow>
        unpack1 (djibouti_items items) = Inl ValueError \<and> hrea_cell4 items = Inl ValueError)
   \<and> (catalog s1_search_area = [] \<longrightarrow> s1_run catalog open_overview = Inl IndexError)
   \<and> (catalog s1_search_mode = [] \<longrightarrow>
        (\<exists>e. s1_run catalog open_overview = Inl e)
        \<and> ((\<exists>r. s1_from_cell4 open_overview (catalog s1_search_area) = Inr r) \<longrightarrow>
             s1_run catalog open_overview = Inl StopIteration))
   \<and> (catalog hrea_search_year = [] \<longrightarrow>
        hrea_run catalog open_rasterio block_windows sel_region to_dict stack = Inl ValueError)
   \<and> hrea_cell8 to_dict [] = []
   \<and> hrea_from_cell8 to_dict stack [] = (case stack [] of Inl e \<Rightarrow> Inl e | Inr d \<Rightarrow> Inr (0, d))"
proof -
  have a: "djibouti_items items = [] \<longrightarrow>
        unpack1 (djibouti_items items) = Inl ValueError \<and> hrea_cell4 items = Inl ValueError"
    by (simp add: hrea_cell4_def)
  have b: "catalog s1_search_area = [] \<longrightarrow> s1_run catalog open_overview = Inl IndexError"
    by (simp add: s1_run_def s1_from_cell4_Nil)
  have c: "catalog s1_search_mode = [] \<longrightarrow>
        (\<exists>e. s1_run catalog open_overview = Inl e)
        \<and> ((\<exists>r. s1_from_cell4 open_overview (catalog s1_search_area) = Inr r) \<longrightarrow>
             s1_run catalog open_overview = Inl StopIteration)"
    by (auto simp: s1_run_def Let_def s1_cell13_def next_gen_def split: sum.splits)
  have d: "catalog hrea_search_year = [] \<longrightarrow>
        hrea_run catalog open_rasterio block_windows sel_region to_dict stack = Inl ValueError"
    by (simp add: hrea_run_def hrea_from_cell4_def hrea_cell4_def djibouti_items_def)
  have e: "hrea_cell8 to_dict [] = []
      \<and> hrea_from_cell8 to_dict stack [] = (case stack [] of Inl e \<Rightarrow> Inl e | Inr d \<Rightarrow> Inr (0, d))"
    by (simp add: hrea_cell8_def hrea_from_cell8_def cong: sum.case_cong)
  show ?thesis
    using s1_cell4_IndexError s1_cell13_StopIteration a b c d e by blast
qed

theorem C1_empty_result_witness:
  "(\<lambda>s. []) s1_search_area = ([] :: item list)
   \<and> s1_run (\<lambda>s. []) (\<lambda>url level. Inr [[Fin 1]]) = Inl IndexError
   \<and> hrea_run (\<lambda>s. []) (\<lambda>url. Inr [[[Fin 1]]]) (\<lambda>url. Inr recorded_windows) (\<lambda>a. a)
        item_id Inr = Inl ValueError
   \<and> djibouti_items [\<lparr>item_id = ''HREA_Ethiopia_2019'', properties = [], assets = []\<rparr>] = []
   \<and> hrea_cell4 [\<lparr>item_id = ''HREA_Ethiopia_2019'', properties = [], assets = []\<rparr>] = Inl ValueError
   \<and> s1_run
        (\<lambda>s. if s = s1_search_area
          then [\<lparr>item_id = ''S1B_IW_GRDH'',
          properties = [(''sar:polarizations'', ''VV VH''), (''sat:orbit_state'', ''descending'')],
          assets = [(''rendered_preview'', \<lparr>href = ''p'', title = None, roles = None\<rparr>),
                    (''vv'', \<lparr>href = ''v'', title = None, roles = None\<rparr>),
                    (''vh'', \<lparr>href = ''h'', title = None, roles = None\<rparr>)]\<rparr>]
          else [])
        (\<lambda>url level. Inr [[Fin 1]]) = Inl StopIteration"
proof -
  have n: "djibouti_items [\<lparr>item_id = ''HREA_Ethiopia_2019'', properties = [], assets = []\<rparr>] = []"
    by (simp add: djibouti_items_def str_in_def sublist_code(3))
  have first: "\<exists>r. s1_from_cell4 (\<lambda>url level. Inr [[Fin 1]])
        [\<lparr>item_id = ''S1B_IW_GRDH'',
          properties = [(''sar:polarizations'', ''VV VH''), (''sat:orbit_state'', ''descending'')],
          assets = [(''rendered_preview'', \<lparr>href = ''p'', title = None, roles = None\<rparr>),
                    (''vv'', \<lparr>href = ''v'', title = None, roles = None\<rparr>),
                    (''vh'', \<lparr>href = ''h'', title = None, roles = None\<rparr>)]\<rparr>] = Inr r"
    by (simp add: s1_from_cell4_def s1_cell4_def getitem0_def getitem_dict_def s1_later_def
        s1_cell6_def s1_cell7_def s1_cell11_def)
  have calls: "s1_search_mode \<noteq> s1_search_area"
    by (simp add: s1_search_mode_def s1_search_area_def)
  have "s1_run (\<lambda>s. []) (\<lambda>url level. Inr [[Fin 1]]) = Inl IndexError"
    using C1_empty_result_propagates
      [where items = "[]" and found = "[]" and catalog = "\<lambda>s. []"
        and open_overview = "\<lambda>url level. Inr [[Fin 1]]"
        and open_rasterio = "\<lambda>url. Inr [[[Fin 1]]]"
        and block_windows = "\<lambda>url. Inr recorded_windows" and sel_region = "\<lambda>a. a"
        and to_dict = item_id and stack = Inr]
    by simp
  moreover have "hrea_run (\<lambda>s. []) (\<lambda>url. Inr [[[Fin 1]]]) (\<lambda>url. Inr recorded_windows) (\<lambda>a. a)
        item_id Inr = Inl ValueError"
    using C1_empty_result_propagates
      [where items = "[]" and found = "[]" and catalog = "\<lambda>s. []"
        and open_overview = "\<lambda>url level. Inr [[Fin 1]]"
        and open_rasterio = "\<lambda>url. Inr [[[Fin 1]]]"
        and block_windows = "\<lambda>url. Inr recorded_windows" and sel_region = "\<lambda>a. a"
        and to_dict = item_id and stack = Inr]
    by simp
  moreover have "hrea_cell4 [\<lparr>item_id = ''HREA_Ethiopia_2019'', properties = [], assets = []\<rparr>] = Inl ValueError"
    using C1_empty_result_propagates
      [where items = "[\<lparr>item_id = ''HREA_Ethiopia_2019'', properties = [], assets = []\<rparr>]"
        and found = "[]" and catalog = "\<lambda>s. []"
        and open_overview = "\<lambda>url level. Inr [[Fin 1]]"
        and open_rasterio = "\<lambda>url. Inr [[[Fin 1]]]"
        and block_windows = "\<lambda>url. Inr recorded_windows" and sel_region = "\<lambda>a. a"
        and to_dict = item_id and stack = Inr] n
    by blast
  moreover have "s1_run
        (\<lambda>s. if s = s1_search_area
          then [\<lparr>item_id = ''S1B_IW_GRDH'',
          properties = [(''sar:polarizations'', ''VV VH''), (''sat:orbit_state'', ''descending'')],
          assets = [(''rendered_preview'', \<lparr>href = ''p'', title = None, roles = None\<rparr>),
                    (''vv'', \<lparr>href = ''v'', title = None, roles = None\<rparr>),
                    (''vh'', \<lparr>href = ''h'', title = None, roles = None\<rparr>)]\<rparr>]
          else [])
        (\<lambda>url level. Inr [[Fin 1]]) = Inl StopIteration"
    using C1_empty_result_propagates
      [where items = "[]" and found = "[]"
        and catalog = "\<lambda>s. if s = s1_search_area
          then [\<lparr>item_id = ''S1B_IW_GRDH'',
          properties = [(''sar:polarizations'', ''VV VH''), (''sat:orbit_state'', ''descending'')],
          assets = [(''rendered_preview'', \<lparr>href = ''p'', title = None, roles = None\<rparr>),
                    (''vv'', \<lparr>href = ''v'', title = None, roles = None\<rparr>),
                    (''vh'', \<lparr>href = ''h'', title = None, roles = None\<rparr>)]\<rparr>]
          else []"
        and open_overview = "\<lambda>url level. Inr [[Fin 1]]"
        and open_rasterio = "\<lambda>url. Inr [[[Fin 1]]]"
        and block_windows = "\<lambda>url. Inr recorded_windows" and sel_region = "\<lambda>a. a"
        and to_dict = item_id and stack = Inr] first calls
    by simp
  ultimately show ?thesis using n by simp
qed



text \<open>
  C4. Item selection takes the first or the filtered result. Sentinel-1 cells 4 and 13
  bind the element at position 0, respectively the first element yielded, and show its
  preview. The filter keeps exactly the items whose id contains Djibouti, in order;
  HREA cell 4 binds the only element of that sub-list and cell 8 the dictionaries of its
  elements. The later cells read the selected item only: their outcome is the same
  whatever the other items of the result are.
\<close>

theorem C4_first_or_filtered_result:
  "(s1_cell4 items = Inr (it, url) \<longleftrightarrow>
      (\<exists>xs a. items = it # xs \<and> map_of (assets it) ''rendered_preview'' = Some a \<and> url = href a))
   \<and> (s1_cell13 items = Inr (it, url) \<longleftrightarrow>
      (\<exists>xs a. items = it # xs \<and> map_of (assets it) ''rendered_preview'' = Some a \<and> url = href a))
   \<and> s1_later open_overview (st\<lparr>var_items := ys\<rparr>) = s1_later open_overview st
   \<and> s1_from_cell4 open_overview (x # xs) = s1_from_cell4 open_overview [x]
   \<and> djibouti_items items = filter (\<lambda>i. \<exists>p t. item_id i = p @ ''Djibouti'' @ t) items
   \<and> (hrea_cell4 items = Inr (it, names) \<longleftrightarrow>
        djibouti_items items = [it] \<and> data_assets it = Inr names)
   \<and> hrea_later open_rasterio block_windows sel_region (st\<lparr>var_items := ys\<rparr>) names
      = hrea_later open_rasterio block_windows sel_region st names
   \<and> hrea_from_cell4 open_rasterio block_windows sel_region items
      = hrea_from_cell4 open_rasterio block_windows sel_region (djibouti_items items)
   \<and> hrea_cell8 to_dict items = map to_dict (djibouti_items items)
   \<and> hrea_from_cell8 to_dict stack items
      = (case stack (map to_dict (djibouti_items items)) of
           Inl e \<Rightarrow> Inl e
         | Inr dikhil \<Rightarrow> Inr (length (djibouti_items items), dikhil))"
proof -
  have filt: "djibouti_items items = filter (\<lambda>i. \<exists>p t. item_id i = p @ ''Djibouti'' @ t) items"
    by (simp add: djibouti_items_def str_in_iff)
  have c8: "hrea_from_cell8 to_dict stack items
      = (case stack (map to_dict (djibouti_items items)) of
           Inl e \<Rightarrow> Inl e
         | Inr dikhil \<Rightarrow> Inr (length (djibouti_items items), dikhil))"
    by (simp add: hrea_from_cell8_def hrea_cell8_filter Let_def cong: sum.case_cong)
  show ?thesis
    using s1_cell4_Inr_iff [of items it url] s1_cell13_Inr_iff [of items it url]
      s1_later_items [where open_overview = open_overview and st = st and ys = ys]
      s1_from_cell4_Cons [of open_overview x xs]
      filt hrea_cell4_Inr_iff [of items it names]
      hrea_later_items [where open_rasterio = open_rasterio and block_windows = block_windows
        and sel_region = sel_region and st = st and ys = ys and names = names]
      hrea_from_cell4_filtered [of open_rasterio block_windows sel_region items]
      hrea_cell8_filter [of to_dict items] c8
    by simp
qed

section \<open>The search calls\<close>






section \<open>The composite and the flipped image\<close>

lemma shape2_row: "shape2 a h w \<Longrightarrow> i < h \<Longrightarrow> length (a ! i) = w"
  by (simp add: shape2_def list_all_length)

lemma shape2_map2d: "shape2 (map2d f a) h w = shape2 a h w"
  by (simp add: shape2_def map2d_def list_all_length)

lemma map2d_nth: "i < length a \<Longrightarrow> j < length (a ! i) \<Longrightarrow> map2d f a ! i ! j = f (a ! i ! j)"
  by (simp add: map2d_def)

lemma div_arrays_nth:
  "i < length a \<Longrightarrow> i < length b \<Longrightarrow> j < length (a ! i) \<Longrightarrow> j < length (b ! i)
   \<Longrightarrow> div_arrays a b ! i ! j = fl_div (a ! i ! j) (b ! i ! j)"
  by (simp add: div_arrays_def)

lemma shape2_div_arrays: "shape2 a h w \<Longrightarrow> shape2 b h w \<Longrightarrow> shape2 (div_arrays a b) h w"
  by (simp add: shape2_def div_arrays_def list_all_length)

lemma composite_bands:
  "composite vv vh =
     [map2d (\<lambda>x. where_gt0 (fl_clip (Fin 0) (Fin 1) (fl_div x (Fin 600)))) vv,
      map2d (\<lambda>x. where_gt0 (fl_clip (Fin 0) (Fin 1) (fl_div x (Fin 270)))) vh,
      map2d (\<lambda>x. where_gt0 (fl_clip (Fin 0) (Fin 1) (fl_div x (Fin 9)))) (div_arrays vv vh)]"
  by (simp add: composite_def concat_band_def clip01_def map3d_def map2d_def div_scalar_def
      comp_def)

text \<open>
  C5. For two rasters of one shape the composite has three bands of that shape. At
  every pixel the red band is vv divided by 600, the green band vh divided by 270 and
  the blue band the ratio vv / vh divided by 9, each clipped to the interval from 0 to
  1 and then replaced by NaN unless strictly greater than 0.
\<close>

theorem C5_composite_pixels:
  assumes "shape2 vv h w" and "shape2 vh h w" and "i < h" and "j < w"
  shows "length (composite vv vh) = 3
    \<and> shape3 (composite vv vh) h w
    \<and> composite vv vh ! 0 ! i ! j
        = where_gt0 (fl_clip (Fin 0) (Fin 1) (fl_div (vv ! i ! j) (Fin 600)))
    \<and> composite vv vh ! 1 ! i ! j
        = where_gt0 (fl_clip (Fin 0) (Fin 1) (fl_div (vh ! i ! j) (Fin 270)))
    \<and> composite vv vh ! 2 ! i ! j
        = where_gt0 (fl_clip (Fin 0) (Fin 1) (fl_div (fl_div (vv ! i ! j) (vh ! i ! j)) (Fin 9)))"
proof -
  have lv: "length vv = h" and lh: "length vh = h"
    using assms by (simp_all add: shape2_def)
  have rv: "length (vv ! i) = w" and rh: "length (vh ! i) = w"
    using assms by (simp_all add: shape2_row)
  have sd: "shape2 (div_arrays vv vh) h w"
    using assms by (simp add: shape2_div_arrays)
  have ld: "length (div_arrays vv vh) = h" and rd: "length (div_arrays vv vh ! i) = w"
    using sd assms by (simp_all add: shape2_def shape2_row)
  have red: "composite vv vh ! 0 ! i ! j
      = where_gt0 (fl_clip (Fin 0) (Fin 1) (fl_div (vv ! i ! j) (Fin 600)))"
    using assms lv rv by (simp add: composite_bands map2d_nth)
  have green: "composite vv vh ! 1 ! i ! j
      = where_gt0 (fl_clip (Fin 0) (Fin 1) (fl_div (vh ! i ! j) (Fin 270)))"
    using assms lh rh by (simp add: composite_bands map2d_nth)
  have blue: "composite vv vh ! 2 ! i ! j
      = where_gt0 (fl_clip (Fin 0) (Fin 1) (fl_div (fl_div (vv ! i ! j) (vh ! i ! j)) (Fin 9)))"
    using assms lv lh rv rh ld rd by (simp add: composite_bands map2d_nth div_arrays_nth)
  have shp: "shape3 (composite vv vh) h w"
    using assms sd by (simp add: composite_bands shape3_def shape2_map2d)
  show ?thesis
    using red green blue shp by (simp add: composite_bands)
qed

theorem C5_composite_witness:
  "shape2 [[Fin 300, Fin 1200]] 1 2 \<and> shape2 [[Fin 135, Fin 0]] 1 2
   \<and> composite [[Fin 300, Fin 1200]] [[Fin 135, Fin 0]] ! 0 ! 0 ! 1 = Fin 1
   \<and> composite [[Fin 300, Fin 1200]] [[Fin 135, Fin 0]] ! 1 ! 0 ! 1 = NaN
   \<and> composite [[Fin 300, Fin 1200]] [[Fin 135, Fin 0]] ! 2 ! 0 ! 1 = Fin 1"
proof -
  have v: "shape2 [[Fin 300, Fin 1200]] 1 2" and h: "shape2 [[Fin 135, Fin 0]] 1 2"
    by (simp_all add: shape2_def)
  show ?thesis
    using v h C5_composite_pixels [OF v h, of 0 1]
    by (simp add: fl_div_def fl_clip_def fl_gt_def where_gt0_def inf_signed_def zero_signed_def Let_def)
qed

lemma flip12_nth:
  assumes "shape3 a h w" and "b < length a" and "i < h" and "j < w"
  shows "flip12 a ! b ! i ! j = a ! b ! (h - 1 - i) ! (w - 1 - j)"
proof -
  have sb: "shape2 (a ! b) h w"
    using assms by (simp add: shape3_def list_all_length)
  then have lb: "length (a ! b) = h" by (simp add: shape2_def)
  have i': "h - 1 - i < h" using assms by arith
  have lr: "length (a ! b ! (h - 1 - i)) = w"
    using sb i' by (rule shape2_row)
  have "flip12 a ! b ! i = rev (a ! b ! (h - 1 - i))"
    using assms lb by (simp add: flip12_def rev_nth rev_map [symmetric] del: rev_map)
  then show ?thesis
    using assms lr by (simp add: rev_nth)
qed

lemma shape3_clip01: "shape3 (clip01 a) h w = shape3 a h w"
  by (simp add: shape3_def clip01_def map3d_def shape2_map2d list_all_length)

lemma shape3_flip12: "shape3 (flip12 a) h w = shape3 a h w"
  by (simp add: shape3_def flip12_def shape2_def list_all_iff)

lemma clip01_nth:
  "b < length a \<Longrightarrow> i < length (a ! b) \<Longrightarrow> j < length (a ! b ! i)
   \<Longrightarrow> clip01 a ! b ! i ! j = fl_clip (Fin 0) (Fin 1) (a ! b ! i ! j)"
  by (simp add: clip01_def map3d_def map2d_def)

text \<open>
  C6. The flipped image reverses both spatial axes and keeps the band axis: for an
  array of height h and width w, its value at band b, row i, column j is the clipped
  value of the original at band b, row h - 1 - i, column w - 1 - j.
\<close>

theorem C6_flip_both_spatial_axes:
  assumes "shape3 data h w" and "b < length data" and "i < h" and "j < w"
  shows "flipped data ! b ! i ! j = fl_clip (Fin 0) (Fin 1) (data ! b ! (h - 1 - i) ! (w - 1 - j))
    \<and> length (flipped data) = length data
    \<and> shape3 (flipped data) h w"
proof -
  have sf: "shape3 (flip12 data) h w"
    using assms by (simp add: shape3_flip12)
  have lf: "length (flip12 data) = length data"
    by (simp add: flip12_def)
  have sb: "shape2 (flip12 data ! b) h w"
    using sf assms lf by (simp add: shape3_def list_all_length)
  have lb: "length (flip12 data ! b) = h"
    using sb by (simp add: shape2_def)
  have lr: "length (flip12 data ! b ! i) = w"
    using sb assms by (simp add: shape2_row)
  have "flipped data ! b ! i ! j = fl_clip (Fin 0) (Fin 1) (flip12 data ! b ! i ! j)"
    using assms lf lb lr by (simp add: flipped_def clip01_nth)
  moreover have "flip12 data ! b ! i ! j = data ! b ! (h - 1 - i) ! (w - 1 - j)"
    using assms by (rule flip12_nth)
  moreover have "length (flipped data) = length data"
    by (simp add: flipped_def clip01_def map3d_def flip12_def)
  moreover have "shape3 (flipped data) h w"
    using sf by (simp add: flipped_def shape3_clip01)
  ultimately show ?thesis by simp
qed

theorem C6_flip_witness:
  "shape3 [[[Fin 2, Fin (1/4)], [NaN, Fin (1/2)]]] 2 2
   \<and> flipped [[[Fin 2, Fin (1/4)], [NaN, Fin (1/2)]]] ! 0 ! 0 ! 1 = NaN
   \<and> flipped [[[Fin 2, Fin (1/4)], [NaN, Fin (1/2)]]] ! 0 ! 1 ! 1 = Fin 1"
proof -
  have s: "shape3 [[[Fin 2, Fin (1/4)], [NaN, Fin (1/2)]]] 2 2"
    by (simp add: shape3_def shape2_def)
  have a: "flipped [[[Fin 2, Fin (1/4)], [NaN, Fin (1/2)]]] ! 0 ! 0 ! 1 = NaN"
    using C6_flip_both_spatial_axes [OF s, of 0 0 1] by (simp add: fl_clip_def)
  have b: "flipped [[[Fin 2, Fin (1/4)], [NaN, Fin (1/2)]]] ! 0 ! 1 ! 1 = Fin 1"
    using C6_flip_both_spatial_axes [OF s, of 0 1 1] by (simp add: fl_clip_def fl_gt_def)
  show ?thesis using s a b by simp
qed

section \<open>The histogram frame\<close>

lemma where_gt0_cases: "where_gt0 x = NaN \<or> (where_gt0 x = x \<and> fl_gt x (Fin 0))"
  by (simp add: where_gt0_def)

lemma raw_of_masked: "x \<in> set (raw_of vv) \<Longrightarrow> x = NaN \<or> (fl_gt x (Fin 0) \<and> x \<in> set (concat vv))"
proof -
  assume "x \<in> set (raw_of vv)"
  then obtain row y where "row \<in> set vv" and "y \<in> set row" and "x = where_gt0 y"
    by (auto simp: raw_of_def map2d_def)
  then show ?thesis using where_gt0_cases [of y] by auto
qed

lemma np_sqrt_positive: "fl_gt x (Fin 0) \<Longrightarrow> snd (np_sqrt x) = None \<and> fst (np_sqrt x) \<noteq> NaN"
  by (cases x) (auto simp: fl_gt_def)

lemma np_log10_positive: "fl_gt x (Fin 0) \<Longrightarrow> snd (np_log10 x) = None \<and> fst (np_log10 x) \<noteq> NaN"
  by (cases x) (auto simp: fl_gt_def)

lemma no_warning_masked:
  "x = NaN \<or> fl_gt x (Fin 0) \<Longrightarrow> snd (np_sqrt x) = None \<and> snd (np_log10 x) = None"
  using np_sqrt_positive np_log10_positive by auto

lemma map_filter_empty: "(\<forall>x \<in> set xs. f x = None) \<Longrightarrow> List.map_filter f xs = []"
  by (induction xs) (simp_all add: List.map_filter_simps)

lemma warnings_of_raw: "warnings_of (raw_of vv) = []"
proof -
  have "\<forall>x \<in> set (raw_of vv). snd (np_sqrt x) = None \<and> snd (np_log10 x) = None"
    using raw_of_masked no_warning_masked by blast
  then show ?thesis
    by (simp add: warnings_of_def map_filter_empty)
qed

lemma dropna_rows:
  assumes "(p, a, d) \<in> set (dropna (frame_rows (raw_of vv)))"
  shows "fl_gt p (Fin 0) \<and> p \<in> set (concat vv) \<and> a = fst (np_sqrt p)
     \<and> d = fl_mul (Fin 10) (fst (np_log10 p)) \<and> a \<noteq> NaN \<and> d \<noteq> NaN
     \<and> snd (np_sqrt p) = None \<and> snd (np_log10 p) = None"
proof -
  from assms have mem: "p \<in> set (raw_of vv)" and nn: "p \<noteq> NaN" "a \<noteq> NaN" "d \<noteq> NaN"
    and a: "a = fst (np_sqrt p)" and d: "d = fl_mul (Fin 10) (fst (np_log10 p))"
    by (auto simp: dropna_def frame_rows_def)
  from raw_of_masked [OF mem] nn have pos: "fl_gt p (Fin 0)" and src: "p \<in> set (concat vv)"
    by auto
  show ?thesis
    using pos src a d nn np_sqrt_positive [OF pos] np_log10_positive [OF pos] by simp
qed

text \<open>
  C7. Square root and logarithm are applied to the masked array, whose elements are
  NaN or strictly positive, so neither function emits a domain warning on any element.
  Every row kept by dropna has a strictly positive power taken from the raster, and
  its amplitude and dB are the square root and ten times the logarithm of that power.
  Every value of the melted frame is such a power, amplitude or dB, and none is NaN.
\<close>

theorem C7_transforms_on_positive_values:
  "(\<forall>x \<in> set (raw_of vv). x = NaN \<or> fl_gt x (Fin 0))
   \<and> warnings_of (raw_of vv) = []
   \<and> (\<forall>(p, a, d) \<in> set (dropna (frame_rows (raw_of vv))).
        fl_gt p (Fin 0) \<and> p \<in> set (concat vv)
        \<and> a = fst (np_sqrt p) \<and> snd (np_sqrt p) = None
        \<and> d = fl_mul (Fin 10) (fst (np_log10 p)) \<and> snd (np_log10 p) = None)
   \<and> (\<forall>(k, v) \<in> set (s1_cell8 vv). v \<noteq> NaN \<and>
        (\<exists>p \<in> set (concat vv). fl_gt p (Fin 0) \<and>
           (k = ''power'' \<and> v = p
            \<or> k = ''amplitude'' \<and> v = fst (np_sqrt p)
            \<or> k = ''dB'' \<and> v = fl_mul (Fin 10) (fst (np_log10 p)))))"
proof -
  have masked: "\<forall>x \<in> set (raw_of vv). x = NaN \<or> fl_gt x (Fin 0)"
    using raw_of_masked by blast
  have rows: "\<forall>(p, a, d) \<in> set (dropna (frame_rows (raw_of vv))).
        fl_gt p (Fin 0) \<and> p \<in> set (concat vv)
        \<and> a = fst (np_sqrt p) \<and> snd (np_sqrt p) = None
        \<and> d = fl_mul (Fin 10) (fst (np_log10 p)) \<and> snd (np_log10 p) = None"
    using dropna_rows by blast
  have melted: "v \<noteq> NaN \<and>
        (\<exists>p \<in> set (concat vv). fl_gt p (Fin 0) \<and>
           (k = ''power'' \<and> v = p
            \<or> k = ''amplitude'' \<and> v = fst (np_sqrt p)
            \<or> k = ''dB'' \<and> v = fl_mul (Fin 10) (fst (np_log10 p))))"
    if "(k, v) \<in> set (s1_cell8 vv)" for k v
  proof -
    from that obtain p a d where r: "(p, a, d) \<in> set (dropna (frame_rows (raw_of vv)))"
      and kv: "(k, v) = (''power'', p) \<or> (k, v) = (''amplitude'', a) \<or> (k, v) = (''dB'', d)"
      by (auto simp: s1_cell8_def melt_def)
    have pn: "p \<noteq> NaN" using r by (auto simp: dropna_def)
    from dropna_rows [OF r] kv pn show ?thesis by auto
  qed
  show ?thesis
    using masked warnings_of_raw rows melted by blast
qed

theorem C7_transforms_witness:
  "(Fin 1, Fin 1, Fin 0) \<in> set (dropna (frame_rows (raw_of [[Fin 1, Fin 0], [Fin (- 3), NaN]])))
   \<and> fl_gt (Fin 1) (Fin 0) \<and> snd (np_sqrt (Fin 1)) = None \<and> snd (np_log10 (Fin 1)) = None
   \<and> dropna (frame_rows (raw_of [[Fin 1, Fin 0], [Fin (- 3), NaN]])) = [(Fin 1, Fin 1, Fin 0)]"
proof -
  have rows: "dropna (frame_rows (raw_of [[Fin 1, Fin 0], [Fin (- 3), NaN]])) = [(Fin 1, Fin 1, Fin 0)]"
    by (simp add: dropna_def frame_rows_def raw_of_def map2d_def where_gt0_def fl_gt_def
        fl_mul_def zero_signed_def Let_def)
  then have mem: "(Fin 1, Fin 1, Fin 0) \<in> set (dropna (frame_rows (raw_of [[Fin 1, Fin 0], [Fin (- 3), NaN]])))"
    by simp
  have "fl_gt (Fin 1) (Fin 0) \<and> snd (np_sqrt (Fin 1)) = None \<and> snd (np_log10 (Fin 1)) = None"
    using C7_transforms_on_positive_values [of "[[Fin 1, Fin 0], [Fin (- 3), NaN]]"] mem
    by fast
  then show ?thesis using rows by simp
qed

section \<open>The window read\<close>

lemma getitem_list_2: "3 \<le> length xs \<Longrightarrow> getitem_list xs 2 = Inr (xs ! 2)"
  by (simp add: getitem_list_def)

lemma select_window_third:
  "3 \<le> length ws \<Longrightarrow> select_window ws = Inr (snd (ws ! 2))"
  by (simp add: select_window_def i_window_def getitem_list_2 split: prod.split)

text \<open>
  C9. With \<open>i_window = 2\<close> the cell selects the entry at list position 2, the third
  window, for every window list of at least three entries. For the windows the
  notebook lists this is the window at grid position (1, 0), not the second entry.
\<close>

theorem C9_third_window_selected:
  "(3 \<le> length windows \<longrightarrow> select_window windows = Inr (snd (windows ! 2)))
   \<and> (3 \<le> length windows \<longrightarrow>
        hrea_cell6 data_array windows = Inr (isel_window data_array (snd (windows ! 2))))
   \<and> recorded_windows ! 2 = ((1, 0), \<lparr>col_off = 0, row_off = 256, width = 256, height = 165\<rparr>)
   \<and> select_window recorded_windows = Inr (snd (recorded_windows ! 2))
   \<and> select_window recorded_windows \<noteq> Inr (snd (recorded_windows ! 1))"
proof -
  have len: "3 \<le> length recorded_windows"
    by (simp add: recorded_windows_def)
  have third: "recorded_windows ! 2 = ((1, 0), \<lparr>col_off = 0, row_off = 256, width = 256, height = 165\<rparr>)"
    by (simp add: recorded_windows_def)
  have second: "snd (recorded_windows ! 1) = \<lparr>col_off = 256, row_off = 0, width = 142, height = 256\<rparr>"
    by (simp add: recorded_windows_def)
  show ?thesis
    using select_window_third [OF len] select_window_third [of windows] third second
    by (simp add: hrea_cell6_def)
qed

theorem C9_third_window_witness:
  "3 \<le> length recorded_windows
   \<and> select_window recorded_windows = Inr \<lparr>col_off = 0, row_off = 256, width = 256, height = 165\<rparr>"
proof -
  have len: "3 \<le> length recorded_windows"
    by (simp add: recorded_windows_def)
  have "select_window recorded_windows = Inr (snd (recorded_windows ! 2))"
    using C9_third_window_selected [of recorded_windows] len by blast
  then show ?thesis using len by (simp add: recorded_windows_def)
qed

section \<open>The range of the composite\<close>

lemma fl_clip_range: "fl_clip (Fin 0) (Fin 1) x = NaN \<or> (\<exists>r. fl_clip (Fin 0) (Fin 1) x = Fin r \<and> 0 \<le> r \<and> r \<le> 1)"
  by (cases x) (auto simp: fl_clip_def fl_gt_def)

lemma where_gt0_clip_range:
  "where_gt0 (fl_clip (Fin 0) (Fin 1) x) = NaN
   \<or> (\<exists>r. where_gt0 (fl_clip (Fin 0) (Fin 1) x) = Fin r \<and> 0 < r \<and> r \<le> 1)"
  using fl_clip_range [of x] by (auto simp: where_gt0_def fl_gt_def)

text \<open>
  C10. Every value of the composite is NaN or a finite number greater than 0 and at
  most 1. The clip maps positive infinity to 1, and the mask replaces both zeros by
  NaN.
\<close>

theorem C10_composite_range:
  "(\<forall>band \<in> set (composite vv vh). \<forall>row \<in> set band. \<forall>x \<in> set row.
      x = NaN \<or> (\<exists>r. x = Fin r \<and> 0 < r \<and> r \<le> 1))
   \<and> fl_clip (Fin 0) (Fin 1) PInf = Fin 1
   \<and> where_gt0 (Fin 0) = NaN \<and> where_gt0 NZero = NaN"
proof -
  have "x = NaN \<or> (\<exists>r. x = Fin r \<and> 0 < r \<and> r \<le> 1)"
    if "band \<in> set (composite vv vh)" and "row \<in> set band" and "x \<in> set row" for band row x
  proof -
    from that obtain y where "x = where_gt0 (fl_clip (Fin 0) (Fin 1) y)"
      by (auto simp: composite_bands map2d_def)
    then show ?thesis using where_gt0_clip_range [of y] by simp
  qed
  moreover have "fl_clip (Fin 0) (Fin 1) PInf = Fin 1"
    by (simp add: fl_clip_def fl_gt_def)
  moreover have "where_gt0 (Fin 0) = NaN \<and> where_gt0 NZero = NaN"
    by (simp add: where_gt0_def fl_gt_def)
  ultimately show ?thesis by blast
qed

theorem C10_composite_witness:
  "[Fin (1/2), Fin 1] \<in> set (composite [[Fin 300, Fin 1200]] [[Fin 135, Fin 0]] ! 0)
   \<and> (\<exists>r. Fin 1 = Fin r \<and> 0 < r \<and> r \<le> 1)"
proof -
  have c: "composite [[Fin 300, Fin 1200]] [[Fin 135, Fin 0]] ! 0 = [[Fin (1/2), Fin 1]]"
    by (simp add: composite_bands map2d_def fl_div_def fl_clip_def fl_gt_def where_gt0_def Let_def)
  have m: "composite [[Fin 300, Fin 1200]] [[Fin 135, Fin 0]] ! 0
      \<in> set (composite [[Fin 300, Fin 1200]] [[Fin 135, Fin 0]])"
    by (simp add: composite_bands)
  have "Fin 1 = NaN \<or> (\<exists>r. Fin 1 = Fin r \<and> 0 < r \<and> r \<le> 1)"
    using C10_composite_range [of "[[Fin 300, Fin 1200]]" "[[Fin 135, Fin 0]]"] m c
    by (metis list.set_intros(1) list.set_intros(2))
  then show ?thesis using c by simp
qed

end
